theory Spec2Isabelle
  imports Main "HOL-Library.Word" "HOL-Library.Stream" "HOL-Library.Signed_Division"
begin

section \<open>Remote receiver\<close>

text \<open>
  The sketch \<^verbatim>\<open>arduino-led-strip.ino\<close> runs on an ATmega328P. Its \<^verbatim>\<open>unsigned long\<close>
  values are 32-bit words (arithmetic wraps), its \<^verbatim>\<open>uint8_t\<close> values are 8-bit words.
  Its \<^verbatim>\<open>int\<close> variables are modelled as integers; C's \<^verbatim>\<open>%\<close> on them truncates
  towards zero and is written \<open>smod\<close>. An array read outside the array and a remainder
  by zero are undefined in C and are errors of the model.
\<close>

datatype Button =
  POWER | FUNC_STOP | VOL_PLUS | FAST_BACK | PAUSE | FAST_FORWARD | DOWN | VOL_MINUS | UP
| EQ | ST_REPT
| NUM_0 | NUM_1 | NUM_2 | NUM_3 | NUM_4 | NUM_5 | NUM_6 | NUM_7 | NUM_8 | NUM_9 | NONE

text \<open>The value of an enumerator of \<^verbatim>\<open>enum Button\<close>: its position in the declaration.\<close>

fun buttonCode :: "Button \<Rightarrow> int" where
  "buttonCode POWER = 0"
| "buttonCode FUNC_STOP = 1"
| "buttonCode VOL_PLUS = 2"
| "buttonCode FAST_BACK = 3"
| "buttonCode PAUSE = 4"
| "buttonCode FAST_FORWARD = 5"
| "buttonCode DOWN = 6"
| "buttonCode VOL_MINUS = 7"
| "buttonCode UP = 8"
| "buttonCode EQ = 9"
| "buttonCode ST_REPT = 10"
| "buttonCode NUM_0 = 11"
| "buttonCode NUM_1 = 12"
| "buttonCode NUM_2 = 13"
| "buttonCode NUM_3 = 14"
| "buttonCode NUM_4 = 15"
| "buttonCode NUM_5 = 16"
| "buttonCode NUM_6 = 17"
| "buttonCode NUM_7 = 18"
| "buttonCode NUM_8 = 19"
| "buttonCode NUM_9 = 20"
| "buttonCode NONE = 21"

text \<open>\<^verbatim>\<open>Receiver::rawDataToButtonCode\<close>: the codes of the Elegoo remote control.\<close>

definition rawDataToButtonCode :: "32 word \<Rightarrow> Button" where
  "rawDataToButtonCode rawData =
     (if rawData = 0xBA45FF00 then POWER
      else if rawData = 0xB847FF00 then FUNC_STOP
      else if rawData = 0xB946FF00 then VOL_PLUS
      else if rawData = 0xBB44FF00 then FAST_BACK
      else if rawData = 0xBF40FF00 then PAUSE
      else if rawData = 0xBC43FF00 then FAST_FORWARD
      else if rawData = 0xF807FF00 then DOWN
      else if rawData = 0xEA15FF00 then VOL_MINUS
      else if rawData = 0xF609FF00 then UP
      else if rawData = 0xE619FF00 then EQ
      else if rawData = 0xF20DFF00 then ST_REPT
      else if rawData = 0xE916FF00 then NUM_0
      else if rawData = 0xF30CFF00 then NUM_1
      else if rawData = 0xE718FF00 then NUM_2
      else if rawData = 0xA15EFF00 then NUM_3
      else if rawData = 0xF708FF00 then NUM_4
      else if rawData = 0xE31CFF00 then NUM_5
      else if rawData = 0xA55AFF00 then NUM_6
      else if rawData = 0xBD42FF00 then NUM_7
      else if rawData = 0xAD52FF00 then NUM_8
      else if rawData = 0xB54AFF00 then NUM_9
      else NONE)"

section \<open>LED strip data, scenarios and configuration\<close>

datatype CRGB = CRGB (red: "8 word") (green: "8 word") (blue: "8 word")

definition NUM_LEDS :: int where
  "NUM_LEDS = 50"

text \<open>
  \<^verbatim>\<open>struct Scenario\<close>. The render routine \<^verbatim>\<open>func\<close> is left out: the routines draw into
  the buffer and call \<^verbatim>\<open>sleep\<close>, they assign to none of the controller's variables.
\<close>

record Scenario =
  numVariants :: int

definition NUM_SCENARIOS :: int where
  "NUM_SCENARIOS = 10"

definition NUM_STANDARD_COLORS :: int where
  "NUM_STANDARD_COLORS = 7"

text \<open>The array \<^verbatim>\<open>scenarios\<close> as \<^verbatim>\<open>setupScenarios\<close> fills it, index 0 first.\<close>

definition scenarios :: "Scenario list" where
  "scenarios =
     [\<lparr>numVariants = NUM_STANDARD_COLORS\<rparr>,
      \<lparr>numVariants = NUM_STANDARD_COLORS\<rparr>,
      \<lparr>numVariants = 1\<rparr>,
      \<lparr>numVariants = 1\<rparr>,
      \<lparr>numVariants = 1\<rparr>,
      \<lparr>numVariants = 1\<rparr>,
      \<lparr>numVariants = NUM_STANDARD_COLORS\<rparr>,
      \<lparr>numVariants = NUM_STANDARD_COLORS\<rparr>,
      \<lparr>numVariants = 1\<rparr>,
      \<lparr>numVariants = 1\<rparr>]"

definition NUM_BRIGHTNESS_STEPS :: int where
  "NUM_BRIGHTNESS_STEPS = 4"

definition brightnessMap :: "int list" where
  "brightnessMap = [25, 100, 175, 255]"

definition NUM_SPEED_STEPS :: int where
  "NUM_SPEED_STEPS = 5"

definition DEFAULT_SPEED_STEP :: int where
  "DEFAULT_SPEED_STEP = 2"

definition SCENARIO_SWITCH_TIMEOUT :: "32 word" where
  "SCENARIO_SWITCH_TIMEOUT = 60000"

datatype error = OutOfBounds | DivisionByZero

text \<open>The reads \<^verbatim>\<open>scenarios[i]\<close> and \<^verbatim>\<open>brightnessMap[i]\<close>.\<close>

definition scenarioAt :: "int \<Rightarrow> error + Scenario" where
  "scenarioAt i =
     (if 0 \<le> i \<and> i < NUM_SCENARIOS then Inr (scenarios ! nat i) else Inl OutOfBounds)"

definition brightnessAt :: "int \<Rightarrow> error + int" where
  "brightnessAt i =
     (if 0 \<le> i \<and> i < NUM_BRIGHTNESS_STEPS then Inr (brightnessMap ! nat i)
      else Inl OutOfBounds)"

text \<open>
  The global variables of the sketch, followed by what lies outside it: the frames pushed
  to the strip (newest first), the brightness handed to the LED driver, and the values
  that the infrared receiver, the millisecond clock and the random generator are going to
  deliver, in the order in which they are asked for. An entry \<open>None\<close> of \<open>irSignal\<close>
  is a poll at which \<^verbatim>\<open>IrReceiver.decode()\<close> finds nothing.
\<close>

record state =
  isSwitchedOn :: bool
  currentScenario :: int
  currentVariant :: int
  currentBrightness :: int
  currentSpeed :: int
  isSwitchModeActive :: bool
  lastScenarioSwitchTimestamp :: "32 word"
  leds :: "CRGB list"
  strip :: "CRGB list list"
  stripBrightness :: int
  irSignal :: "32 word option stream"
  clock :: "32 word stream"
  rand8 :: "8 word stream"

definition blank :: "CRGB list" where
  "blank = replicate (nat NUM_LEDS) (CRGB 0 0 0)"

text \<open>
  Modelled from the spec: \<^verbatim>\<open>FastLED.clear()\<close>, \<^verbatim>\<open>FastLED.show()\<close> and
  \<^verbatim>\<open>FastLED.setBrightness()\<close> belong to the FastLED library. Clearing sets every entry of
  the buffer to the zero colour, showing pushes the buffer to the strip, and the brightness
  is a value kept by the driver.
\<close>

definition FastLED_clear :: "state \<Rightarrow> state" where
  "FastLED_clear s = s\<lparr>leds := blank\<rparr>"

definition FastLED_show :: "state \<Rightarrow> state" where
  "FastLED_show s = s\<lparr>strip := leds s # strip s\<rparr>"

definition FastLED_setBrightness :: "int \<Rightarrow> state \<Rightarrow> state" where
  "FastLED_setBrightness v s = s\<lparr>stripBrightness := v\<rparr>"

text \<open>
  Modelled from the spec: \<^verbatim>\<open>millis()\<close> is the platform's millisecond clock and
  \<^verbatim>\<open>random8()\<close> the library's generator of random bytes. Each call takes the next value.
\<close>

definition millis :: "state \<Rightarrow> 32 word \<times> state" where
  "millis s = (shd (clock s), s\<lparr>clock := stl (clock s)\<rparr>)"

definition random8 :: "state \<Rightarrow> 8 word \<times> state" where
  "random8 s = (shd (rand8 s), s\<lparr>rand8 := stl (rand8 s)\<rparr>)"

text \<open>\<^verbatim>\<open>Receiver::readSignal\<close>: the pressed button, or \<open>NONE\<close> without a signal.\<close>

definition decodeSignal :: "32 word option \<Rightarrow> Button" where
  "decodeSignal x = (case x of None \<Rightarrow> NONE | Some rawData \<Rightarrow> rawDataToButtonCode rawData)"

definition readSignal :: "state \<Rightarrow> Button \<times> state" where
  "readSignal s = (decodeSignal (shd (irSignal s)), s\<lparr>irSignal := stl (irSignal s)\<rparr>)"

text \<open>
  The values of the globals at their declarations, the buffer zero-initialised, after
  \<^verbatim>\<open>setup()\<close> has handed \<^verbatim>\<open>brightnessMap[currentBrightness]\<close> to the driver.
\<close>

definition initialState ::
  "32 word option stream \<Rightarrow> 32 word stream \<Rightarrow> 8 word stream \<Rightarrow> state" where
  "initialState ir clk rnd =
     \<lparr>isSwitchedOn = True,
      currentScenario = 0,
      currentVariant = 0,
      currentBrightness = NUM_BRIGHTNESS_STEPS - 1,
      currentSpeed = DEFAULT_SPEED_STEP,
      isSwitchModeActive = False,
      lastScenarioSwitchTimestamp = shd clk,
      leds = blank,
      strip = [],
      stripBrightness = brightnessMap ! nat (NUM_BRIGHTNESS_STEPS - 1),
      irSignal = ir,
      clock = stl clk,
      rand8 = rnd\<rparr>"

section \<open>Processing a button\<close>

text \<open>
  Lines 326-327 and 329-330 of \<^verbatim>\<open>readReceiverAndProcess\<close>: store the new brightness step
  and hand the mapped brightness to the driver.
\<close>

definition applyBrightness :: "int \<Rightarrow> state \<Rightarrow> error + state" where
  "applyBrightness step s =
     (case brightnessAt step of
        Inl e \<Rightarrow> Inl e
      | Inr v \<Rightarrow> Inr (FastLED_setBrightness v (s\<lparr>currentBrightness := step\<rparr>)))"

definition readReceiverAndProcess :: "state \<Rightarrow> error + bool \<times> state" where
  "readReceiverAndProcess s0 =
     (let (button, s1) = readSignal s0;
          s2 = (if button = POWER then s1\<lparr>isSwitchedOn := \<not> isSwitchedOn s1\<rparr> else s1);
          newScenario = buttonCode button - buttonCode NUM_0;
          isNumber = (buttonCode button \<ge> buttonCode NUM_0 \<and> buttonCode button \<le> buttonCode NUM_9)
      in
      if button = POWER \<and> \<not> isSwitchedOn s2 then
        Inr (True, FastLED_show (FastLED_clear s2))
      else if \<not> isSwitchedOn s2 then
        Inr (True, s2)
      else if isNumber \<and> newScenario \<ge> NUM_SCENARIOS then
        Inr (False, s2)
      else if isNumber \<and> currentScenario s2 \<noteq> newScenario then
        Inr (True, FastLED_show (FastLED_clear
               (s2\<lparr>currentScenario := newScenario, currentVariant := 0\<rparr>)))
      else
        (case scenarioAt (currentScenario s2) of
           Inl e \<Rightarrow> Inl e
         | Inr sc \<Rightarrow>
             if button = FAST_FORWARD \<or> button = FAST_BACK then
               (if numVariants sc = 1 then Inr (False, s2)
                else if numVariants sc = 0 then Inl DivisionByZero
                else Inr (True, FastLED_show (FastLED_clear
                       (s2\<lparr>currentVariant :=
                          (if button = FAST_FORWARD
                           then (currentVariant s2 + 1) smod numVariants sc
                           else (numVariants sc + currentVariant s2 - 1) smod numVariants sc)\<rparr>))))
             else
               (case (if button = VOL_PLUS then
                        applyBrightness (min (currentBrightness s2 + 1) (NUM_BRIGHTNESS_STEPS - 1)) s2
                      else if button = VOL_MINUS then
                        applyBrightness (max (currentBrightness s2 - 1) 0) s2
                      else Inr s2) of
                  Inl e \<Rightarrow> Inl e
                | Inr s3 \<Rightarrow>
                    (let s4 = (if button = UP then
                                 s3\<lparr>currentSpeed := min (currentSpeed s3 + 1) (NUM_SPEED_STEPS - 1)\<rparr>
                               else if button = DOWN then
                                 s3\<lparr>currentSpeed := max (currentSpeed s3 - 1) 0\<rparr>
                               else s3)
                     in
                     if button = ST_REPT then
                       (let s5 = s4\<lparr>isSwitchModeActive := \<not> isSwitchModeActive s4\<rparr>;
                            (t, s6) = millis s5
                        in Inr (False, s6\<lparr>lastScenarioSwitchTimestamp := t\<rparr>))
                     else Inr (False, s4)))))"

section \<open>Switch mode\<close>

definition shouldSwitchScenario :: "state \<Rightarrow> bool \<times> state" where
  "shouldSwitchScenario s =
     (if \<not> isSwitchModeActive s then (False, s)
      else
        (let (t1, s1) = millis s in
         if t1 - lastScenarioSwitchTimestamp s1 > SCENARIO_SWITCH_TIMEOUT then
           (let (t2, s2) = millis s1 in (True, s2\<lparr>lastScenarioSwitchTimestamp := t2\<rparr>))
         else (False, s1)))"

text \<open>
  \<^verbatim>\<open>selectRandomScenario\<close>: the loop draws until the draw names another scenario. A run
  that never leaves the loop has the value \<open>None\<close>.
\<close>

partial_function (option) selectRandomScenario :: "state \<Rightarrow> state option" where
  "selectRandomScenario s =
     (case random8 s of
        (x, s1) \<Rightarrow>
          (let scenario = uint x smod NUM_SCENARIOS in
           if scenario = currentScenario s1 then selectRandomScenario s1
           else Some (s1\<lparr>currentScenario := scenario\<rparr>)))"

section \<open>Time\<close>

text \<open>
  Lines 396-403 of \<^verbatim>\<open>milliseconds\<close>: the clock value adjusted to the speed step. The
  \<^verbatim>\<open>int\<close> factor is converted to \<^verbatim>\<open>unsigned long\<close> before the operation.
\<close>

definition scaledTime :: "int \<Rightarrow> 32 word \<Rightarrow> 32 word" where
  "scaledTime speed t =
     (let adjusted1 = (if speed > DEFAULT_SPEED_STEP
                       then t * word_of_int (speed - DEFAULT_SPEED_STEP + 1) else t);
          adjusted2 = (if speed < DEFAULT_SPEED_STEP
                       then adjusted1 div word_of_int (DEFAULT_SPEED_STEP - speed + 1)
                       else adjusted1)
      in adjusted2)"

definition milliseconds :: "state \<Rightarrow> 32 word \<times> state" where
  "milliseconds s = (let (t, s1) = millis s in (scaledTime (currentSpeed s1) t, s1))"

text \<open>Lines 441-449 of \<^verbatim>\<open>sleep\<close>: the local \<^verbatim>\<open>adjustedTime\<close>.\<close>

definition adjustedTime :: "int \<Rightarrow> 32 word \<Rightarrow> 32 word" where
  "adjustedTime speed ms =
     (let adjusted1 = (if speed > DEFAULT_SPEED_STEP
                       then ms div word_of_int (speed - DEFAULT_SPEED_STEP + 1) else ms);
          adjusted2 = (if speed < DEFAULT_SPEED_STEP
                       then adjusted1 * word_of_int (DEFAULT_SPEED_STEP - speed + 1)
                       else adjusted1)
      in adjusted2)"

text \<open>
  Lines 451-460 of \<^verbatim>\<open>sleep\<close>: the loop that polls the receiver until the adjusted time
  has passed. It runs for as long as nothing cancels and the clock stays within the
  adjusted time; a run that never ends has the value \<open>None\<close>.
\<close>

partial_function (option) sleepLoop ::
  "32 word \<Rightarrow> 32 word \<Rightarrow> state \<Rightarrow> (error + bool \<times> state) option" where
  "sleepLoop startTime adjusted s =
     (case readReceiverAndProcess s of
        Inl e \<Rightarrow> Some (Inl e)
      | Inr (cancel, s1) \<Rightarrow>
          if cancel then Some (Inr (True, s1))
          else
            (case millis s1 of
               (t, s2) \<Rightarrow>
                 if t - startTime \<le> adjusted then sleepLoop startTime adjusted s2
                 else Some (Inr (False, s2))))"

definition sleep :: "32 word \<Rightarrow> state \<Rightarrow> (error + bool \<times> state) option" where
  "sleep ms s0 =
     (case shouldSwitchScenario s0 of
        (True, s1) \<Rightarrow>
          (case selectRandomScenario (FastLED_show (FastLED_clear s1)) of
             None \<Rightarrow> None
           | Some s2 \<Rightarrow>
               (case scenarioAt (currentScenario s2) of
                  Inl e \<Rightarrow> Some (Inl e)
                | Inr sc \<Rightarrow>
                    (case random8 s2 of
                       (x, s3) \<Rightarrow>
                         if numVariants sc = 0 then Some (Inl DivisionByZero)
                         else Some (Inr (True, s3\<lparr>currentVariant := uint x smod numVariants sc\<rparr>)))))
      | (False, s1) \<Rightarrow>
          (case millis s1 of
             (startTime, s2) \<Rightarrow> sleepLoop startTime (adjustedTime (currentSpeed s2) ms) s2))"

section \<open>The master loop and the states it reaches\<close>

text \<open>
  \<open>n\<close> successive calls of \<^verbatim>\<open>readReceiverAndProcess\<close>, as \<^verbatim>\<open>loop()\<close> and \<^verbatim>\<open>sleep\<close>
  issue them, with the value each call returns. \<open>nextButtons n s\<close> are the buttons that
  these calls are going to read.
\<close>

fun runCommands :: "nat \<Rightarrow> state \<Rightarrow> error + bool list \<times> state" where
  "runCommands 0 s = Inr ([], s)"
| "runCommands (Suc n) s =
     (case readReceiverAndProcess s of
        Inl e \<Rightarrow> Inl e
      | Inr (c, s1) \<Rightarrow>
          (case runCommands n s1 of
             Inl e \<Rightarrow> Inl e
           | Inr (cs, s2) \<Rightarrow> Inr (c # cs, s2)))"

definition nextButtons :: "nat \<Rightarrow> state \<Rightarrow> Button list" where
  "nextButtons n s = map decodeSignal (stake n (irSignal s))"

text \<open>The variant is one of the variants of the current scenario.\<close>

definition variantValid :: "state \<Rightarrow> bool" where
  "variantValid s \<longleftrightarrow>
     0 \<le> currentScenario s \<and> currentScenario s < NUM_SCENARIOS
     \<and> 0 \<le> currentVariant s
     \<and> currentVariant s < numVariants (scenarios ! nat (currentScenario s))"

definition levelsValid :: "state \<Rightarrow> bool" where
  "levelsValid s \<longleftrightarrow>
     0 \<le> currentBrightness s \<and> currentBrightness s < NUM_BRIGHTNESS_STEPS
     \<and> 0 \<le> currentSpeed s \<and> currentSpeed s < NUM_SPEED_STEPS"

text \<open>
  The states of a run of the sketch: the state after start-up; the state after a call of
  \<^verbatim>\<open>readReceiverAndProcess\<close> or of \<^verbatim>\<open>sleep\<close> that returns; and, for the part of a render
  routine between two calls of \<^verbatim>\<open>sleep\<close>, any change of the buffer, of the frames
  pushed, and of the clock and generator values still to come.
\<close>

inductive reachable :: "state \<Rightarrow> bool" where
  start: "reachable (initialState ir clk rnd)"
| poll: "reachable s \<Longrightarrow> readReceiverAndProcess s = Inr (c, s') \<Longrightarrow> reachable s'"
| wait: "reachable s \<Longrightarrow> sleep ms s = Some (Inr (c, s')) \<Longrightarrow> reachable s'"
| render: "reachable s \<Longrightarrow> reachable (s\<lparr>leds := l, strip := f, clock := clk, rand8 := rnd\<rparr>)"

section \<open>Concrete inputs\<close>

text \<open>
  The device after start-up, with the given raw codes arriving at the next polls and
  silence after them, a clock and a generator that deliver 0.
\<close>

definition remoteState :: "32 word list \<Rightarrow> state" where
  "remoteState codes = initialState (map Some codes @- sconst None) (sconst 0) (sconst 0)"

definition idleState :: state where
  "idleState = remoteState []"

text \<open>
  The device after start-up with a generator that delivers 0, 20, 13 and then 0 for
  ever; and the same device in switch mode, more than a minute after the last switch.
\<close>

definition drawState :: state where
  "drawState = (remoteState [])\<lparr>rand8 := 0 ## 20 ## 13 ## sconst 0\<rparr>"

definition rotateState :: state where
  "rotateState =
     drawState\<lparr>isSwitchModeActive := True, clock := 70000 ## 70001 ## sconst 70002\<rparr>"

text \<open>
  \<open>rotateState\<close> with a generator that delivers 0 for ever; and \<open>rotateState\<close> a tenth
  of a second after the last switch.
\<close>

definition stuckRotate :: state where
  "stuckRotate = rotateState\<lparr>rand8 := sconst 0\<rparr>"

definition waitingState :: state where
  "waitingState = rotateState\<lparr>clock := 100 ## 200 ## sconst 300\<rparr>"

section \<open>Basic facts\<close>

lemmas constants =
  NUM_LEDS_def NUM_SCENARIOS_def NUM_STANDARD_COLORS_def NUM_BRIGHTNESS_STEPS_def
  NUM_SPEED_STEPS_def DEFAULT_SPEED_STEP_def SCENARIO_SWITCH_TIMEOUT_def

lemma readSignal_fst: "fst (readSignal s) = decodeSignal (shd (irSignal s))"
  by (simp add: readSignal_def)

lemma readSignal_snd: "snd (readSignal s) = s\<lparr>irSignal := stl (irSignal s)\<rparr>"
  by (simp add: readSignal_def)

section \<open>The poll without a command\<close>

text \<open>
  Claim C10. In a switched-on state whose scenario index is one of the ten scenarios, a
  poll that reads \<open>NONE\<close> (no signal, or a code that is not in the table) returns false
  and changes nothing: the state after the call is the state before it with the poll
  taken from the receiver, so the power flag, the brightness and speed steps, the
  scenario, the variant, the switch mode and its timestamp keep their values, the buffer
  is not cleared and no frame is pushed.
\<close>

theorem none_is_noop:
  assumes "isSwitchedOn s"
    and "0 \<le> currentScenario s" and "currentScenario s < NUM_SCENARIOS"
    and "fst (readSignal s) = NONE"
  shows "readReceiverAndProcess s = Inr (False, s\<lparr>irSignal := stl (irSignal s)\<rparr>)"
  using assms
  by (simp add: readReceiverAndProcess_def readSignal_def scenarioAt_def)

theorem none_is_noop_witness:
  "isSwitchedOn idleState
   \<and> 0 \<le> currentScenario idleState
   \<and> currentScenario idleState < NUM_SCENARIOS
   \<and> fst (readSignal idleState) = NONE
   \<and> readReceiverAndProcess idleState
       = Inr (False, idleState\<lparr>irSignal := stl (irSignal idleState)\<rparr>)"
  using none_is_noop [of idleState]
  by (simp add: idleState_def remoteState_def initialState_def readSignal_def decodeSignal_def
      constants)

lemma remoteState_simps:
  "isSwitchedOn (remoteState cs) = True"
  "currentScenario (remoteState cs) = 0"
  "currentVariant (remoteState cs) = 0"
  "currentBrightness (remoteState cs) = 3"
  "currentSpeed (remoteState cs) = 2"
  "isSwitchModeActive (remoteState cs) = False"
  "irSignal (remoteState cs) = map Some cs @- sconst None"
  by (simp_all add: remoteState_def initialState_def constants)

lemma decode_POWER: "decodeSignal (Some 0xBA45FF00) = POWER"
  by (simp add: decodeSignal_def rawDataToButtonCode_def)

lemma decode_NUM_3: "decodeSignal (Some 0xA15EFF00) = NUM_3"
  by (simp add: decodeSignal_def rawDataToButtonCode_def)

section \<open>The POWER button\<close>

text \<open>
  Claim C1, as the sketch has it. A poll that reads \<open>POWER\<close> toggles \<open>isSwitchedOn\<close>.
  When that leaves the strip switched off, the buffer is cleared, the blank frame is
  pushed and the call returns true. When it switches the strip on (the scenario index
  being one of the ten), the call returns false, the buffer is not cleared and no frame
  is pushed: only the power flag changes.
\<close>

theorem power_toggles:
  assumes "fst (readSignal s) = POWER"
  shows "(isSwitchedOn s \<longrightarrow>
            readReceiverAndProcess s =
              Inr (True, s\<lparr>irSignal := stl (irSignal s), isSwitchedOn := False,
                           leds := blank, strip := blank # strip s\<rparr>))
       \<and> (\<not> isSwitchedOn s \<and> 0 \<le> currentScenario s \<and> currentScenario s < NUM_SCENARIOS \<longrightarrow>
            readReceiverAndProcess s =
              Inr (False, s\<lparr>irSignal := stl (irSignal s), isSwitchedOn := True\<rparr>))"
  using assms
  by (simp add: readReceiverAndProcess_def readSignal_def scenarioAt_def
      FastLED_clear_def FastLED_show_def)

theorem power_toggles_witness:
  "fst (readSignal (remoteState [0xBA45FF00])) = POWER
   \<and> isSwitchedOn (remoteState [0xBA45FF00])
   \<and> readReceiverAndProcess (remoteState [0xBA45FF00]) =
       Inr (True, (remoteState [0xBA45FF00])\<lparr>irSignal := stl (irSignal (remoteState [0xBA45FF00])),
              isSwitchedOn := False, leds := blank,
              strip := blank # strip (remoteState [0xBA45FF00])\<rparr>)
   \<and> fst (readSignal ((remoteState [0xBA45FF00])\<lparr>isSwitchedOn := False\<rparr>)) = POWER
   \<and> \<not> isSwitchedOn ((remoteState [0xBA45FF00])\<lparr>isSwitchedOn := False\<rparr>)
   \<and> readReceiverAndProcess ((remoteState [0xBA45FF00])\<lparr>isSwitchedOn := False\<rparr>) =
       Inr (False, (remoteState [0xBA45FF00])\<lparr>irSignal := stl (irSignal (remoteState [0xBA45FF00])),
              isSwitchedOn := True\<rparr>)"
  using power_toggles [of "remoteState [0xBA45FF00]"]
    power_toggles [of "(remoteState [0xBA45FF00])\<lparr>isSwitchedOn := False\<rparr>"]
  by (simp add: readSignal_fst remoteState_simps decode_POWER constants)

text \<open>
  Two presses of \<open>POWER\<close> after start-up: the first switches the strip off, returns true
  and pushes the blank frame; the second switches it on again, returns false and pushes
  nothing, so that one frame has been pushed in all.
\<close>

theorem power_on_counterexample:
  "runCommands (Suc (Suc 0)) (remoteState [0xBA45FF00, 0xBA45FF00]) =
     Inr ([True, False], (remoteState [])\<lparr>strip := [blank]\<rparr>)"
  by (simp add: readReceiverAndProcess_def readSignal_def scenarioAt_def
      FastLED_clear_def FastLED_show_def remoteState_def initialState_def constants
      decode_POWER)

section \<open>The number buttons\<close>

text \<open>
  Claim C6. In a switched-on state, a poll that reads a number button naming the current
  scenario returns false and changes nothing (the variant is not reset). A number button
  naming another scenario makes that scenario the current one, sets the variant to 0,
  clears the buffer, pushes the blank frame and returns true. When the next poll reads
  the same number button again, that second call returns false and changes nothing.
\<close>

theorem digit_selects_scenario:
  assumes "isSwitchedOn s"
    and "fst (readSignal s) = b"
    and "buttonCode NUM_0 \<le> buttonCode b" and "buttonCode b \<le> buttonCode NUM_9"
  shows "(buttonCode b - buttonCode NUM_0 = currentScenario s \<longrightarrow>
            readReceiverAndProcess s = Inr (False, s\<lparr>irSignal := stl (irSignal s)\<rparr>))
       \<and> (buttonCode b - buttonCode NUM_0 \<noteq> currentScenario s \<longrightarrow>
            readReceiverAndProcess s =
              Inr (True, s\<lparr>irSignal := stl (irSignal s),
                           currentScenario := buttonCode b - buttonCode NUM_0,
                           currentVariant := 0, leds := blank, strip := blank # strip s\<rparr>))
       \<and> (fst (readSignal (snd (readSignal s))) = b \<longrightarrow>
            (\<exists>c s1. readReceiverAndProcess s = Inr (c, s1)
               \<and> currentScenario s1 = buttonCode b - buttonCode NUM_0
               \<and> readReceiverAndProcess s1 = Inr (False, s1\<lparr>irSignal := stl (irSignal s1)\<rparr>)))"
proof -
  have digit: "b \<in> {NUM_0, NUM_1, NUM_2, NUM_3, NUM_4, NUM_5, NUM_6, NUM_7, NUM_8, NUM_9}"
    using assms(3,4) by (cases b) simp_all
  have same: "readReceiverAndProcess u = Inr (False, u\<lparr>irSignal := stl (irSignal u)\<rparr>)"
    if "isSwitchedOn u" "fst (readSignal u) = b" "buttonCode b - buttonCode NUM_0 = currentScenario u"
    for u
    using that digit
    by (auto simp add: readReceiverAndProcess_def readSignal_def scenarioAt_def constants)
  have other: "readReceiverAndProcess s =
      Inr (True, s\<lparr>irSignal := stl (irSignal s),
                   currentScenario := buttonCode b - buttonCode NUM_0,
                   currentVariant := 0, leds := blank, strip := blank # strip s\<rparr>)"
    if "buttonCode b - buttonCode NUM_0 \<noteq> currentScenario s"
    using that digit assms(1,2)
    by (auto simp add: readReceiverAndProcess_def readSignal_def constants
        FastLED_clear_def FastLED_show_def)
  have twice: "\<exists>c s1. readReceiverAndProcess s = Inr (c, s1)
               \<and> currentScenario s1 = buttonCode b - buttonCode NUM_0
               \<and> readReceiverAndProcess s1 = Inr (False, s1\<lparr>irSignal := stl (irSignal s1)\<rparr>)"
    if again: "fst (readSignal (snd (readSignal s))) = b"
  proof (cases "buttonCode b - buttonCode NUM_0 = currentScenario s")
    case True
    let ?s1 = "s\<lparr>irSignal := stl (irSignal s)\<rparr>"
    have "readReceiverAndProcess s = Inr (False, ?s1)"
      using same [OF assms(1,2) True] .
    moreover have "readReceiverAndProcess ?s1 = Inr (False, ?s1\<lparr>irSignal := stl (irSignal ?s1)\<rparr>)"
      using again True assms(1) by (intro same) (simp_all add: readSignal_def)
    ultimately show ?thesis using True by auto
  next
    case False
    let ?s1 = "s\<lparr>irSignal := stl (irSignal s),
                   currentScenario := buttonCode b - buttonCode NUM_0,
                   currentVariant := 0, leds := blank, strip := blank # strip s\<rparr>"
    have "readReceiverAndProcess s = Inr (True, ?s1)"
      using other [OF False] .
    moreover have "readReceiverAndProcess ?s1 = Inr (False, ?s1\<lparr>irSignal := stl (irSignal ?s1)\<rparr>)"
      using again assms(1) by (intro same) (simp_all add: readSignal_def)
    ultimately show ?thesis by auto
  qed
  show ?thesis
    using same [OF assms(1,2)] other twice by blast
qed

theorem digit_selects_scenario_witness:
  "isSwitchedOn (remoteState [0xA15EFF00, 0xA15EFF00])
   \<and> fst (readSignal (remoteState [0xA15EFF00, 0xA15EFF00])) = NUM_3
   \<and> buttonCode NUM_0 \<le> buttonCode NUM_3 \<and> buttonCode NUM_3 \<le> buttonCode NUM_9
   \<and> buttonCode NUM_3 - buttonCode NUM_0 \<noteq> currentScenario (remoteState [0xA15EFF00, 0xA15EFF00])
   \<and> readReceiverAndProcess (remoteState [0xA15EFF00, 0xA15EFF00]) =
       Inr (True, (remoteState [0xA15EFF00])\<lparr>currentScenario := 3, strip := [blank]\<rparr>)
   \<and> fst (readSignal ((remoteState [0xA15EFF00])\<lparr>currentScenario := 3, strip := [blank]\<rparr>)) = NUM_3
   \<and> buttonCode NUM_3 - buttonCode NUM_0
       = currentScenario ((remoteState [0xA15EFF00])\<lparr>currentScenario := 3, strip := [blank]\<rparr>)
   \<and> readReceiverAndProcess ((remoteState [0xA15EFF00])\<lparr>currentScenario := 3, strip := [blank]\<rparr>) =
       Inr (False, (remoteState [])\<lparr>currentScenario := 3, strip := [blank]\<rparr>)"
  using digit_selects_scenario [of "remoteState [0xA15EFF00, 0xA15EFF00]" NUM_3]
    digit_selects_scenario
      [of "(remoteState [0xA15EFF00])\<lparr>currentScenario := 3, strip := [blank]\<rparr>" NUM_3]
  by (simp add: readSignal_fst decode_NUM_3 remoteState_def initialState_def constants)

lemma decode_VOL_MINUS: "decodeSignal (Some 0xEA15FF00) = VOL_MINUS"
  by (simp add: decodeSignal_def rawDataToButtonCode_def)

lemma decode_FAST_FORWARD: "decodeSignal (Some 0xBC43FF00) = FAST_FORWARD"
  by (simp add: decodeSignal_def rawDataToButtonCode_def)

lemma decode_VOL_PLUS: "decodeSignal (Some 0xB946FF00) = VOL_PLUS"
  by (simp add: decodeSignal_def rawDataToButtonCode_def)

lemma decode_FAST_BACK: "decodeSignal (Some 0xBB44FF00) = FAST_BACK"
  by (simp add: decodeSignal_def rawDataToButtonCode_def)

section \<open>Brightness and speed\<close>

text \<open>
  Claim C7. In a switched-on state whose scenario index is one of the ten scenarios and
  whose brightness and speed steps are in their ranges, a poll that reads \<open>VOL_PLUS\<close>,
  \<open>VOL_MINUS\<close>, \<open>UP\<close> or \<open>DOWN\<close> returns false. \<open>VOL_PLUS\<close> and \<open>VOL_MINUS\<close> move the
  brightness step by one, stopping at 3 and at 0; \<open>UP\<close> and \<open>DOWN\<close> move the speed step by
  one, stopping at 4 and at 0; both steps stay in their ranges. The scenario, the variant,
  the power flag, the switch mode and its timestamp keep their values, and the buffer and
  the frames pushed are untouched.
\<close>

theorem levels_adjust:
  assumes "isSwitchedOn s"
    and "0 \<le> currentScenario s" and "currentScenario s < NUM_SCENARIOS"
    and "levelsValid s"
    and "fst (readSignal s) = b"
    and "b = VOL_PLUS \<or> b = VOL_MINUS \<or> b = UP \<or> b = DOWN"
  shows "\<exists>s'. readReceiverAndProcess s = Inr (False, s')
           \<and> currentBrightness s' =
               (if b = VOL_PLUS then min (currentBrightness s + 1) (NUM_BRIGHTNESS_STEPS - 1)
                else if b = VOL_MINUS then max (currentBrightness s - 1) 0
                else currentBrightness s)
           \<and> currentSpeed s' =
               (if b = UP then min (currentSpeed s + 1) (NUM_SPEED_STEPS - 1)
                else if b = DOWN then max (currentSpeed s - 1) 0
                else currentSpeed s)
           \<and> levelsValid s'
           \<and> currentScenario s' = currentScenario s
           \<and> currentVariant s' = currentVariant s
           \<and> isSwitchedOn s' = isSwitchedOn s
           \<and> isSwitchModeActive s' = isSwitchModeActive s
           \<and> lastScenarioSwitchTimestamp s' = lastScenarioSwitchTimestamp s
           \<and> leds s' = leds s \<and> strip s' = strip s"
  using assms
  by (auto simp add: readReceiverAndProcess_def readSignal_def scenarioAt_def
      applyBrightness_def brightnessAt_def FastLED_setBrightness_def levelsValid_def constants)

theorem levels_adjust_witness:
  "isSwitchedOn (remoteState [0xEA15FF00])
   \<and> 0 \<le> currentScenario (remoteState [0xEA15FF00])
   \<and> currentScenario (remoteState [0xEA15FF00]) < NUM_SCENARIOS
   \<and> levelsValid (remoteState [0xEA15FF00])
   \<and> fst (readSignal (remoteState [0xEA15FF00])) = VOL_MINUS
   \<and> (\<exists>s'. readReceiverAndProcess (remoteState [0xEA15FF00]) = Inr (False, s')
         \<and> currentBrightness s' = 2 \<and> currentSpeed s' = 2
         \<and> currentScenario s' = 0 \<and> currentVariant s' = 0 \<and> isSwitchedOn s'
         \<and> \<not> isSwitchModeActive s')"
  using levels_adjust [of "remoteState [0xEA15FF00]" VOL_MINUS]
  by (auto simp add: readSignal_fst remoteState_simps decode_VOL_MINUS levelsValid_def constants)

section \<open>The variant buttons\<close>

lemma smod_nonneg: "0 \<le> a \<Longrightarrow> 0 < b \<Longrightarrow> a smod b = a mod (b::int)"
  by (cases "a = 0") (simp_all add: smod_int_alt_def)


lemma mod_shift: "(a mod n + x - y) mod n = (a + x - y) mod (n::int)"
proof -
  have "(a mod n + x - y) mod n = ((a mod n + x) mod n - y) mod n"
    by (simp only: mod_diff_left_eq)
  also have "\<dots> = ((a + x) mod n - y) mod n"
    by (simp only: mod_add_left_eq)
  also have "\<dots> = (a + x - y) mod n"
    by (simp only: mod_diff_left_eq)
  finally show ?thesis .
qed

lemma mod_wrap_back: "(n + v - 1) mod n = (v - 1) mod (n::int)"
proof -
  have "n + v - 1 = (v - 1) + n" by simp
  then show ?thesis by (simp only: mod_add_self2)
qed

lemma variant_step:
  assumes "isSwitchedOn s" and "variantValid s"
    and "fst (readSignal s) = b" and "b = FAST_FORWARD \<or> b = FAST_BACK"
    and "1 < numVariants (scenarios ! nat (currentScenario s))"
  shows "readReceiverAndProcess s =
     Inr (True, s\<lparr>irSignal := stl (irSignal s),
            currentVariant := (currentVariant s + (if b = FAST_FORWARD then 1 else - 1))
                               mod numVariants (scenarios ! nat (currentScenario s)),
            leds := blank, strip := blank # strip s\<rparr>)"
  using assms
  by (auto simp add: readReceiverAndProcess_def readSignal_def scenarioAt_def variantValid_def
      FastLED_clear_def FastLED_show_def smod_nonneg mod_wrap_back)

lemma single_variant_step:
  assumes "isSwitchedOn s" and "variantValid s"
    and "fst (readSignal s) = b" and "b = FAST_FORWARD \<or> b = FAST_BACK"
    and "numVariants (scenarios ! nat (currentScenario s)) = 1"
  shows "readReceiverAndProcess s = Inr (False, s\<lparr>irSignal := stl (irSignal s)\<rparr>)"
  using assms
  by (auto simp add: readReceiverAndProcess_def readSignal_def scenarioAt_def variantValid_def)

lemma nextButtons_Suc:
  "nextButtons (Suc n) s = fst (readSignal s) # nextButtons n (s\<lparr>irSignal := stl (irSignal s)\<rparr>)"
  by (simp add: nextButtons_def readSignal_def)

lemma nextButtons_irSignal:
  "irSignal u = irSignal v \<Longrightarrow> nextButtons n u = nextButtons n v"
  by (simp add: nextButtons_def)

lemma single_variant_run:
  "isSwitchedOn s \<Longrightarrow> variantValid s
   \<Longrightarrow> numVariants (scenarios ! nat (currentScenario s)) = 1
   \<Longrightarrow> set (nextButtons n s) \<subseteq> {FAST_FORWARD, FAST_BACK}
   \<Longrightarrow> runCommands n s = Inr (replicate n False, s\<lparr>irSignal := sdrop n (irSignal s)\<rparr>)"
proof (induction n arbitrary: s)
  case 0
  then show ?case by simp
next
  case (Suc n)
  let ?s1 = "s\<lparr>irSignal := stl (irSignal s)\<rparr>"
  from Suc.prems(4) have b: "fst (readSignal s) = FAST_FORWARD \<or> fst (readSignal s) = FAST_BACK"
    and rest: "set (nextButtons n ?s1) \<subseteq> {FAST_FORWARD, FAST_BACK}"
    by (auto simp add: nextButtons_Suc nextButtons_def readSignal_def)
  have step: "readReceiverAndProcess s = Inr (False, ?s1)"
    using single_variant_step [OF Suc.prems(1,2) refl b Suc.prems(3)] .
  have "runCommands n ?s1 = Inr (replicate n False, ?s1\<lparr>irSignal := sdrop n (irSignal ?s1)\<rparr>)"
    using Suc.prems(1,2,3) rest by (intro Suc.IH) (simp_all add: variantValid_def)
  with step show ?case by simp
qed

lemma variant_run:
  "isSwitchedOn s \<Longrightarrow> variantValid s
   \<Longrightarrow> 1 < numVariants (scenarios ! nat (currentScenario s))
   \<Longrightarrow> set (nextButtons n s) \<subseteq> {FAST_FORWARD, FAST_BACK}
   \<Longrightarrow> runCommands n s =
        Inr (replicate n True,
             s\<lparr>irSignal := sdrop n (irSignal s),
               currentVariant :=
                 (currentVariant s + int (count_list (nextButtons n s) FAST_FORWARD)
                    - int (count_list (nextButtons n s) FAST_BACK))
                 mod numVariants (scenarios ! nat (currentScenario s)),
               leds := (if n = 0 then leds s else blank),
               strip := replicate n blank @ strip s\<rparr>)"
proof (induction n arbitrary: s)
  case 0
  then show ?case by (simp add: nextButtons_def variantValid_def)
next
  case (Suc n)
  let ?nv = "numVariants (scenarios ! nat (currentScenario s))"
  let ?b = "fst (readSignal s)"
  let ?v1 = "(currentVariant s + (if ?b = FAST_FORWARD then 1 else - 1)) mod ?nv"
  let ?s1 = "s\<lparr>irSignal := stl (irSignal s), currentVariant := ?v1,
               leds := blank, strip := blank # strip s\<rparr>"
  from Suc.prems(4) have b: "?b = FAST_FORWARD \<or> ?b = FAST_BACK"
    and rest: "set (nextButtons n ?s1) \<subseteq> {FAST_FORWARD, FAST_BACK}"
    by (auto simp add: nextButtons_Suc nextButtons_def readSignal_def)
  have nb: "nextButtons n ?s1 = nextButtons n (s\<lparr>irSignal := stl (irSignal s)\<rparr>)"
    by (simp add: nextButtons_def)
  have step: "readReceiverAndProcess s = Inr (True, ?s1)"
    using variant_step [OF Suc.prems(1,2) refl b Suc.prems(3)] .
  have valid1: "variantValid ?s1"
    using Suc.prems(2,3) by (simp add: variantValid_def)
  have run: "runCommands n ?s1 =
        Inr (replicate n True,
             ?s1\<lparr>irSignal := sdrop n (irSignal ?s1),
               currentVariant :=
                 (currentVariant ?s1 + int (count_list (nextButtons n ?s1) FAST_FORWARD)
                    - int (count_list (nextButtons n ?s1) FAST_BACK))
                 mod numVariants (scenarios ! nat (currentScenario ?s1)),
               leds := (if n = 0 then leds ?s1 else blank),
               strip := replicate n blank @ strip ?s1\<rparr>)"
    using Suc.prems(1,3) valid1 rest by (intro Suc.IH) simp_all
  have arith: "(?v1 + int (count_list (nextButtons n ?s1) FAST_FORWARD)
                    - int (count_list (nextButtons n ?s1) FAST_BACK)) mod ?nv
      = (currentVariant s + int (count_list (nextButtons (Suc n) s) FAST_FORWARD)
                    - int (count_list (nextButtons (Suc n) s) FAST_BACK)) mod ?nv"
  proof -
    have split: "nextButtons (Suc n) s = ?b # nextButtons n ?s1"
      by (simp add: nextButtons_Suc nb)
    have "currentVariant s + int (count_list (nextButtons (Suc n) s) FAST_FORWARD)
                    - int (count_list (nextButtons (Suc n) s) FAST_BACK)
        = (currentVariant s + (if ?b = FAST_FORWARD then 1 else - 1))
            + int (count_list (nextButtons n ?s1) FAST_FORWARD)
            - int (count_list (nextButtons n ?s1) FAST_BACK)"
      using b unfolding split by auto
    then show ?thesis
      by (simp only: mod_shift)
  qed
  show ?case
    using step run arith by (simp add: replicate_append_same)
qed

text \<open>
  Claim C5. Take a switched-on state with a valid variant and \<open>n\<close> polls that all read
  \<open>FAST_FORWARD\<close> or \<open>FAST_BACK\<close>. When the current scenario has more than one variant,
  every one of the \<open>n\<close> calls returns true, the scenario stays, each call clears the
  buffer and pushes the blank frame, and the variant afterwards is the old variant plus
  the number of \<open>FAST_FORWARD\<close> minus the number of \<open>FAST_BACK\<close> presses, reduced modulo
  the number of variants: it stays between 0 and that number minus one and wraps in both
  directions. When the scenario has exactly one variant, every call returns false and
  only the polls are consumed.
\<close>

theorem variant_commands:
  assumes "isSwitchedOn s" and "variantValid s"
    and "set (nextButtons n s) \<subseteq> {FAST_FORWARD, FAST_BACK}"
  shows "(1 < numVariants (scenarios ! nat (currentScenario s)) \<longrightarrow>
            (\<exists>s'. runCommands n s = Inr (replicate n True, s')
               \<and> currentScenario s' = currentScenario s
               \<and> currentVariant s' =
                   (currentVariant s + int (count_list (nextButtons n s) FAST_FORWARD)
                      - int (count_list (nextButtons n s) FAST_BACK))
                   mod numVariants (scenarios ! nat (currentScenario s))
               \<and> 0 \<le> currentVariant s'
               \<and> currentVariant s' < numVariants (scenarios ! nat (currentScenario s))
               \<and> strip s' = replicate n blank @ strip s
               \<and> (0 < n \<longrightarrow> leds s' = blank)))
       \<and> (numVariants (scenarios ! nat (currentScenario s)) = 1 \<longrightarrow>
            runCommands n s = Inr (replicate n False, s\<lparr>irSignal := sdrop n (irSignal s)\<rparr>))"
proof (intro conjI impI)
  assume more: "1 < numVariants (scenarios ! nat (currentScenario s))"
  show "\<exists>s'. runCommands n s = Inr (replicate n True, s')
               \<and> currentScenario s' = currentScenario s
               \<and> currentVariant s' =
                   (currentVariant s + int (count_list (nextButtons n s) FAST_FORWARD)
                      - int (count_list (nextButtons n s) FAST_BACK))
                   mod numVariants (scenarios ! nat (currentScenario s))
               \<and> 0 \<le> currentVariant s'
               \<and> currentVariant s' < numVariants (scenarios ! nat (currentScenario s))
               \<and> strip s' = replicate n blank @ strip s
               \<and> (0 < n \<longrightarrow> leds s' = blank)"
    using variant_run [OF assms(1,2) more assms(3)] more by simp
next
  assume "numVariants (scenarios ! nat (currentScenario s)) = 1"
  then show "runCommands n s = Inr (replicate n False, s\<lparr>irSignal := sdrop n (irSignal s)\<rparr>)"
    using single_variant_run [OF assms(1,2) _ assms(3)] by simp
qed

text \<open>
  In scenario 0, which has 7 variants: \<open>FAST_BACK\<close> at variant 0 gives variant 6, and
  \<open>FAST_FORWARD\<close> at variant 6 gives variant 0. In scenario 3, which has one variant,
  \<open>FAST_FORWARD\<close> changes nothing and returns false.
\<close>

theorem variant_commands_witness:
  "isSwitchedOn (remoteState [0xBB44FF00]) \<and> variantValid (remoteState [0xBB44FF00])
   \<and> set (nextButtons 1 (remoteState [0xBB44FF00])) \<subseteq> {FAST_FORWARD, FAST_BACK}
   \<and> numVariants (scenarios ! nat (currentScenario (remoteState [0xBB44FF00]))) = 7
   \<and> currentVariant (remoteState [0xBB44FF00]) = 0
   \<and> (\<exists>s'. runCommands 1 (remoteState [0xBB44FF00]) = Inr ([True], s')
          \<and> currentVariant s' = 6 \<and> strip s' = [blank] \<and> leds s' = blank)
   \<and> isSwitchedOn ((remoteState [0xBC43FF00])\<lparr>currentVariant := 6\<rparr>)
   \<and> variantValid ((remoteState [0xBC43FF00])\<lparr>currentVariant := 6\<rparr>)
   \<and> set (nextButtons 1 ((remoteState [0xBC43FF00])\<lparr>currentVariant := 6\<rparr>))
        \<subseteq> {FAST_FORWARD, FAST_BACK}
   \<and> (\<exists>s'. runCommands 1 ((remoteState [0xBC43FF00])\<lparr>currentVariant := 6\<rparr>) = Inr ([True], s')
          \<and> currentVariant s' = 0)
   \<and> isSwitchedOn ((remoteState [0xBC43FF00])\<lparr>currentScenario := 3\<rparr>)
   \<and> variantValid ((remoteState [0xBC43FF00])\<lparr>currentScenario := 3\<rparr>)
   \<and> numVariants (scenarios ! nat (currentScenario ((remoteState [0xBC43FF00])\<lparr>currentScenario := 3\<rparr>))) = 1
   \<and> runCommands 1 ((remoteState [0xBC43FF00])\<lparr>currentScenario := 3\<rparr>)
        = Inr ([False], (remoteState [])\<lparr>currentScenario := 3\<rparr>)"
  using variant_commands [of "remoteState [0xBB44FF00]" 1]
    variant_commands [of "(remoteState [0xBC43FF00])\<lparr>currentVariant := 6\<rparr>" 1]
    variant_commands [of "(remoteState [0xBC43FF00])\<lparr>currentScenario := 3\<rparr>" 1]
  by (auto simp add: remoteState_def initialState_def variantValid_def nextButtons_def
      scenarios_def constants decode_FAST_BACK decode_FAST_FORWARD)

section \<open>Four buttons after start-up\<close>

text \<open>
  Claim C9, as the sketch has it. After start-up (scenario 0, variant 0, speed step 2,
  brightness step 3, switched on) the buttons 3, \<open>FAST_FORWARD\<close>, \<open>FAST_FORWARD\<close>,
  \<open>VOL_PLUS\<close> give the return values true, false, false, false: scenario 3 has a single
  variant, so both presses of \<open>FAST_FORWARD\<close> do nothing. At the end the scenario is 3,
  the variant is 0, the brightness step is still 3, and one blank frame has been pushed.
\<close>

theorem end_to_end:
  "runCommands 4
     (initialState (Some 0xA15EFF00 ## Some 0xBC43FF00 ## Some 0xBC43FF00 ## Some 0xB946FF00 ## ir)
        clk rnd)
   = Inr ([True, False, False, False],
          (initialState ir clk rnd)\<lparr>currentScenario := 3, currentVariant := 0,
             currentBrightness := NUM_BRIGHTNESS_STEPS - 1, strip := [blank]\<rparr>)"
  by (simp add: eval_nat_numeral readReceiverAndProcess_def readSignal_def scenarioAt_def
      scenarios_def applyBrightness_def brightnessAt_def FastLED_setBrightness_def
      FastLED_clear_def FastLED_show_def initialState_def constants
      decode_NUM_3 decode_FAST_FORWARD decode_VOL_PLUS)

text \<open>
  The expectation of variant 2 and two calls returning true does not hold for the run
  above.
\<close>

theorem end_to_end_counterexample:
  "\<not> (currentVariant (snd (projr (runCommands 4
          (remoteState [0xA15EFF00, 0xBC43FF00, 0xBC43FF00, 0xB946FF00])))) = 2
      \<and> length (filter id (fst (projr (runCommands 4
          (remoteState [0xA15EFF00, 0xBC43FF00, 0xBC43FF00, 0xB946FF00]))))) = 2)"
  by (simp add: eval_nat_numeral readReceiverAndProcess_def readSignal_def scenarioAt_def
      scenarios_def applyBrightness_def brightnessAt_def FastLED_setBrightness_def
      FastLED_clear_def FastLED_show_def remoteState_def initialState_def constants
      decode_NUM_3 decode_FAST_FORWARD decode_VOL_PLUS)

section \<open>Selecting a random scenario\<close>











text \<open>The draws 0 and 20 name scenario 0 and are rejected, the draw 13 names scenario 3.\<close>

lemma selectRandomScenario_drawState:
  "selectRandomScenario drawState = Some (drawState\<lparr>rand8 := sconst 0, currentScenario := 3\<rparr>)"
proof -
  have "selectRandomScenario drawState
      = selectRandomScenario (drawState\<lparr>rand8 := 20 ## 13 ## sconst 0\<rparr>)"
    by (subst selectRandomScenario.simps)
      (simp add: random8_def drawState_def remoteState_simps smod_nonneg constants)
  moreover have "selectRandomScenario (drawState\<lparr>rand8 := 20 ## 13 ## sconst 0\<rparr>)
      = selectRandomScenario (drawState\<lparr>rand8 := 13 ## sconst 0\<rparr>)"
    by (subst selectRandomScenario.simps)
      (simp add: random8_def drawState_def remoteState_simps smod_nonneg constants)
  moreover have "selectRandomScenario (drawState\<lparr>rand8 := 13 ## sconst 0\<rparr>)
      = Some (drawState\<lparr>rand8 := sconst 0, currentScenario := 3\<rparr>)"
    by (subst selectRandomScenario.simps)
      (simp add: random8_def drawState_def remoteState_simps smod_nonneg constants)
  ultimately show ?thesis
    by simp
qed




section \<open>Switch mode inside sleep\<close>
















section \<open>Speed scaling of the clock and of the wait\<close>

lemma word_mult_div_cancel:
  fixes d k :: "32 word"
  assumes "k \<noteq> 0" and "unat d * unat k < 2 ^ 32"
  shows "(d * k) div k = d"
proof -
  have m: "unat (d * k) = unat d * unat k"
    using assms(2) by (simp add: unat_mult_lem [THEN iffD1])
  have "unat k \<noteq> 0"
    using assms(1) by (simp add: unat_eq_0)
  then have "unat ((d * k) div k) = unat d"
    by (simp add: unat_div m)
  then show ?thesis
    by (simp add: word_unat_eq_iff)
qed

lemma word_div_mult_round:
  fixes d k :: "32 word"
  shows "d div k * k = d - d mod k"
proof -
  have "d div k * k + d mod k = d"
    by (rule div_mult_mod_eq)
  then show ?thesis
    by (simp add: eq_diff_eq)
qed

text \<open>
  Claim C2, as the sketch has it. For a speed step between 0 and 4, \<^verbatim>\<open>milliseconds\<close> and
  \<^verbatim>\<open>sleep\<close> use the same factor, the distance of the step from 2 plus one, in opposite
  directions: from step 2 upwards the clock value is multiplied by it and the duration is
  divided by it, from step 2 downwards the clock value is divided by it and the duration
  is multiplied by it (at step 2 the factor is 1). The arithmetic is that of 32-bit
  unsigned integers, so one scaling undoes the other only up to rounding: from step 2
  upwards, scaling a duration \<open>d\<close> for the wait and scaling the result as the clock does
  gives \<open>d\<close> less its remainder by the factor; from step 2 downwards it gives \<open>d\<close> again
  when \<open>d\<close> times the factor is below \<open>2 ^ 32\<close>.
\<close>

theorem speed_scaling:
  assumes "0 \<le> speed" and "speed < NUM_SPEED_STEPS"
  shows "(DEFAULT_SPEED_STEP \<le> speed \<longrightarrow>
            scaledTime speed t = t * word_of_int (speed - DEFAULT_SPEED_STEP + 1)
          \<and> adjustedTime speed d = d div word_of_int (speed - DEFAULT_SPEED_STEP + 1)
          \<and> scaledTime speed (adjustedTime speed d)
              = d - d mod word_of_int (speed - DEFAULT_SPEED_STEP + 1))
       \<and> (speed \<le> DEFAULT_SPEED_STEP \<longrightarrow>
            scaledTime speed t = t div word_of_int (DEFAULT_SPEED_STEP - speed + 1)
          \<and> adjustedTime speed d = d * word_of_int (DEFAULT_SPEED_STEP - speed + 1)
          \<and> (unat d * nat (DEFAULT_SPEED_STEP - speed + 1) < 2 ^ 32 \<longrightarrow>
                scaledTime speed (adjustedTime speed d) = d))"
proof -
  from assms have "speed = 0 \<or> speed = 1 \<or> speed = 2 \<or> speed = 3 \<or> speed = 4"
    by (auto simp add: constants)
  then show ?thesis
  proof (elim disjE)
    assume "speed = 0"
    then show ?thesis
      using word_mult_div_cancel [of 3 d]
      by (simp add: scaledTime_def adjustedTime_def constants)
  next
    assume "speed = 1"
    then show ?thesis
      using word_mult_div_cancel [of 2 d]
      by (simp add: scaledTime_def adjustedTime_def constants)
  next
    assume "speed = 2"
    then show ?thesis
      by (simp add: scaledTime_def adjustedTime_def constants)
  next
    assume "speed = 3"
    then show ?thesis
      using word_div_mult_round [of d 2]
      by (simp add: scaledTime_def adjustedTime_def constants)
  next
    assume "speed = 4"
    then show ?thesis
      using word_div_mult_round [of d 3]
      by (simp add: scaledTime_def adjustedTime_def constants)
  qed
qed

theorem speed_scaling_witness:
  "(0::int) \<le> 4 \<and> 4 < NUM_SPEED_STEPS \<and> DEFAULT_SPEED_STEP \<le> 4
   \<and> scaledTime 4 1000 = 3000 \<and> adjustedTime 4 10 = 3
   \<and> scaledTime 4 (adjustedTime 4 10) = 9
   \<and> (0::int) \<le> 0 \<and> 0 < NUM_SPEED_STEPS \<and> 0 \<le> DEFAULT_SPEED_STEP
   \<and> scaledTime 0 1000 = 333 \<and> adjustedTime 0 10 = 30
   \<and> unat (10::32 word) * nat (DEFAULT_SPEED_STEP - 0 + 1) < 2 ^ 32
   \<and> scaledTime 0 (adjustedTime 0 10) = 10"
  using speed_scaling [of 4 1000 10] speed_scaling [of 0 1000 10]
  by (auto simp add: constants)

text \<open>
  At speed step 4 a wait of 10 ms, as scenario 9 asks for, lasts 3 ms, which the clock of
  \<^verbatim>\<open>milliseconds\<close> counts as 9 ms.
\<close>

theorem speed_scaling_counterexample:
  "scaledTime 4 (adjustedTime 4 10) \<noteq> 10"
  by (simp add: scaledTime_def adjustedTime_def constants)

section \<open>The variant is always one of the current scenario\<close>











lemma decode_ST_REPT: "decodeSignal (Some 0xF20DFF00) = ST_REPT"
  by (simp add: decodeSignal_def rawDataToButtonCode_def)



text \<open>
  \<open>stuckRotate\<close> and \<open>waitingState\<close> are states of a run as well: \<open>ST_REPT\<close> is pressed
  after start-up, and the clock and the generator go on as the state says.
\<close>

lemma reachable_switch_mode:
  "reachable ((remoteState [])\<lparr>isSwitchModeActive := True, clock := clk, rand8 := rnd\<rparr>)"
proof -
  let ?a = "initialState (Some 0xF20DFF00 ## sconst None) (sconst 0) (sconst 0)"
  let ?b = "(remoteState [])\<lparr>isSwitchModeActive := True\<rparr>"
  have "reachable ?a"
    by (rule reachable.start)
  moreover have "readReceiverAndProcess ?a = Inr (False, ?b)"
    by (simp add: readReceiverAndProcess_def readSignal_def scenarioAt_def millis_def
        remoteState_def initialState_def decode_ST_REPT constants)
  ultimately have "reachable ?b"
    by (rule reachable.poll)
  then have "reachable (?b\<lparr>leds := blank, strip := [], clock := clk, rand8 := rnd\<rparr>)"
    by (rule reachable.render)
  moreover have "?b\<lparr>leds := blank, strip := [], clock := clk, rand8 := rnd\<rparr>
      = (remoteState [])\<lparr>isSwitchModeActive := True, clock := clk, rand8 := rnd\<rparr>"
    by (simp add: remoteState_def initialState_def)
  ultimately show ?thesis
    by simp
qed

lemma reachable_stuckRotate: "reachable stuckRotate"
  using reachable_switch_mode [where clk = "70000 ## 70001 ## sconst 70002" and rnd = "sconst 0"]
  by (simp add: stuckRotate_def rotateState_def drawState_def remoteState_def initialState_def)

lemma reachable_waitingState: "reachable waitingState"
  using reachable_switch_mode
    [where clk = "100 ## 200 ## sconst 300" and rnd = "0 ## 20 ## 13 ## sconst 0"]
  by (simp add: waitingState_def rotateState_def drawState_def remoteState_def initialState_def)

end
